theory Spec2Isabelle
  imports Main "HOL-Library.Word" "HOL-Library.AList"
begin

unbundle bit_operations_syntax

section \<open>Values, errors and the wire header\<close>

type_synonym byte = "8 word"

text \<open>
  Go's \<open>error\<close> values that the package produces or passes on.  \<open>Err s\<close> is
  \<open>errors.New(s)\<close>; the named constructors are the sentinel errors the code compares
  against or returns.  \<open>Error_text\<close> is the method \<open>err.Error()\<close>.
\<close>

datatype error = EOF | ErrUnexpectedEOF | ErrShutDown | Err string

fun Error_text :: "error \<Rightarrow> string" where
  "Error_text EOF = ''EOF''"
| "Error_text ErrUnexpectedEOF = ''unexpected EOF''"
| "Error_text ErrShutDown = ''connection shut down''"
| "Error_text (Err s) = s"

text \<open>
  A payload of type \<open>any\<close>: an argument, a reply, or the placeholder
  \<open>invalidRequest = struct{}{}\<close>, which is \<open>Struct0\<close>.
\<close>

datatype val = Struct0 | IntV int | StrV string | PairV val val

record Header =
  Seq :: "64 word"
  Name :: string
  Error :: string

section \<open>The raw connection\<close>

text \<open>
  A \<open>net.Conn\<close>: the bytes still to be read, the bytes written so far, whether it has
  been closed, and the fault (if any) with which a write on it fails.
\<close>

record Conn =
  rx :: "byte list"
  tx :: "byte list"
  closed :: bool
  wfault :: "error option"

definition conn_Write :: "Conn \<Rightarrow> byte list \<Rightarrow> (nat \<times> error option) \<times> Conn" where
  "conn_Write c bs =
     (if closed c then ((0, Some (Err ''use of closed network connection'')), c)
      else case wfault c of
             Some e \<Rightarrow> ((0, Some e), c)
           | None \<Rightarrow> ((length bs, None), c\<lparr>tx := tx c @ bs\<rparr>))"

definition conn_Close :: "Conn \<Rightarrow> error option \<times> Conn" where
  "conn_Close c =
     (if closed c then (Some (Err ''use of closed network connection''), c)
      else (None, c\<lparr>closed := True\<rparr>))"

text \<open>\<open>io.ReadFull(conn, buf)\<close> with \<open>len(buf) = n\<close>: the bytes read and the error.\<close>

definition ReadFull :: "Conn \<Rightarrow> nat \<Rightarrow> (byte list \<times> error option) \<times> Conn" where
  "ReadFull c n =
     (if closed c then (([], Some (Err ''use of closed network connection'')), c)
      else if n \<le> length (rx c) then ((take n (rx c), None), c\<lparr>rx := drop n (rx c)\<rparr>)
      else if rx c = [] then (([], Some EOF), c)
      else ((rx c, Some ErrUnexpectedEOF), c\<lparr>rx := []\<rparr>))"

section \<open>The codec interface\<close>

text \<open>
  Client and server are written against the interface \<open>codec.Codec\<close>.  An implementation
  is modelled by what the interface lets its user observe: the outcomes of the successive
  reads (the decoded stream \<open>rdq\<close>), the messages handed to \<open>Write\<close> in order
  (\<open>wlog\<close>), the error with which every \<open>Write\<close> answers (\<open>wfail\<close>), and the
  connection it owns.
\<close>

datatype item = Hdr Header | Body val | Fault error

record Codec =
  conn :: Conn
  rdq :: "item list"
  wlog :: "(Header \<times> val) list"
  wfail :: "error option"

definition ReadHeader :: "Codec \<Rightarrow> (error + Header) \<times> Codec" where
  "ReadHeader cc =
     (case rdq cc of
        [] \<Rightarrow> (Inl EOF, cc)
      | Hdr h # r \<Rightarrow> (Inr h, cc\<lparr>rdq := r\<rparr>)
      | Body v # r \<Rightarrow> (Inl (Err ''type mismatch''), cc\<lparr>rdq := r\<rparr>)
      | Fault e # r \<Rightarrow> (Inl e, cc\<lparr>rdq := r\<rparr>))"

text \<open>
  \<open>ReadBody(body)\<close>: the target is \<open>None\<close> for a nil \<open>body\<close> (the value is consumed
  and dropped) and \<open>Some v\<close> for a pointer to a variable holding \<open>v\<close>; the result carries
  the target's content afterwards.
\<close>

definition ReadBody :: "Codec \<Rightarrow> val option \<Rightarrow> (error option \<times> val option) \<times> Codec" where
  "ReadBody cc target =
     (case rdq cc of
        [] \<Rightarrow> ((Some EOF, target), cc)
      | Body v # r \<Rightarrow> ((None, map_option (\<lambda>_. v) target), cc\<lparr>rdq := r\<rparr>)
      | Hdr h # r \<Rightarrow>
          (if target = None then ((None, None), cc\<lparr>rdq := r\<rparr>)
           else ((Some (Err ''type mismatch''), target), cc\<lparr>rdq := r\<rparr>))
      | Fault e # r \<Rightarrow> ((Some e, target), cc\<lparr>rdq := r\<rparr>))"

definition Write :: "Codec \<Rightarrow> Header \<Rightarrow> val \<Rightarrow> error option \<times> Codec" where
  "Write cc h body = (wfail cc, cc\<lparr>wlog := wlog cc @ [(h, body)]\<rparr>)"

definition Close :: "Codec \<Rightarrow> error option \<times> Codec" where
  "Close cc = (fst (conn_Close (conn cc)), cc\<lparr>conn := snd (conn_Close (conn cc))\<rparr>)"

section \<open>The client\<close>

text \<open>
  A \<open>*Call\<close> is an address; the store \<open>calls\<close> gives the \<open>Call\<close> it points to.  A
  \<open>Done\<close> channel is named by a number, and \<open>chans\<close> gives what has been sent on it, in
  order.  \<open>Reply\<close> is \<open>None\<close> when nil and otherwise holds the content of the variable it
  points to.  The pending table keeps its entries in a list, which fixes one order for
  \<open>range c.pending\<close>.  Each operation below is what the source does between taking and
  releasing its locks.
\<close>

type_synonym ref = "64 word"

record Call =
  call_Name :: string
  call_Args :: val
  call_Seq :: "64 word"
  call_Error :: "error option"
  call_Reply :: "val option"
  call_Done :: nat

record Client =
  cc :: Codec
  flag :: "byte list"
  header :: Header
  seq :: "64 word"
  pending :: "(64 word \<times> ref) list"
  closing :: bool
  shutdown :: bool

record world =
  cl :: Client
  calls :: "ref \<Rightarrow> Call"
  chans :: "nat \<Rightarrow> ref list"

definition call_done :: "world \<Rightarrow> ref \<Rightarrow> world" where
  "call_done w r =
     w\<lparr>chans := (chans w)(call_Done (calls w r) := chans w (call_Done (calls w r)) @ [r])\<rparr>"

definition set_Error :: "world \<Rightarrow> ref \<Rightarrow> error \<Rightarrow> world" where
  "set_Error w r e = w\<lparr>calls := (calls w)(r := (calls w r)\<lparr>call_Error := Some e\<rparr>)\<rparr>"

definition client_Close :: "world \<Rightarrow> error option \<times> world" where
  "client_Close w =
     (if shutdown (cl w) \<or> closing (cl w) then (Some ErrShutDown, w)
      else (fst (Close (cc (cl w))),
            w\<lparr>cl := (cl w)\<lparr>closing := True, cc := snd (Close (cc (cl w)))\<rparr>\<rparr>))"

definition IsAvaliable :: "world \<Rightarrow> bool" where
  "IsAvaliable w = (\<not> shutdown (cl w) \<and> \<not> closing (cl w))"

definition addCall :: "world \<Rightarrow> ref \<Rightarrow> (64 word \<times> error option) \<times> world" where
  "addCall w r =
     (if closing (cl w) \<or> shutdown (cl w) then ((0, Some ErrShutDown), w)
      else ((seq (cl w), None),
            w\<lparr>calls := (calls w)(r := (calls w r)\<lparr>call_Seq := seq (cl w)\<rparr>),
              cl := (cl w)\<lparr>pending := AList.update (seq (cl w)) r (pending (cl w)),
                          seq := seq (cl w) + 1\<rparr>\<rparr>))"

text \<open>\<open>addCall\<close> for one call after the other, with no call completing in between.\<close>

fun addCalls :: "world \<Rightarrow> ref list \<Rightarrow> world" where
  "addCalls w [] = w"
| "addCalls w (r # rs) = addCalls (snd (addCall w r)) rs"

definition removeCall :: "world \<Rightarrow> 64 word \<Rightarrow> ref option \<times> world" where
  "removeCall w s =
     (map_of (pending (cl w)) s,
      w\<lparr>cl := (cl w)\<lparr>pending := AList.delete s (pending (cl w))\<rparr>\<rparr>)"

definition terminateCalls :: "world \<Rightarrow> error \<Rightarrow> world" where
  "terminateCalls w err =
     fold (\<lambda>kr w'. call_done (set_Error w' (snd kr) err) (snd kr))
          (pending (cl w))
          (w\<lparr>cl := (cl w)\<lparr>shutdown := True\<rparr>\<rparr>)"

definition send :: "world \<Rightarrow> ref \<Rightarrow> world" where
  "send w call =
     (case addCall w call of
        ((sq, Some err), w1) \<Rightarrow> call_done (set_Error w1 call err) call
      | ((sq, None), w1) \<Rightarrow>
          (let w2 = w1\<lparr>calls := (calls w1)(call := (calls w1 call)\<lparr>call_Seq := sq\<rparr>)\<rparr>;
               h = \<lparr>Seq = sq, Name = call_Name (calls w2 call), Error = ''''\<rparr>;
               wr = Write (cc (cl w2)) h (call_Args (calls w2 call));
               w3 = w2\<lparr>cl := (cl w2)\<lparr>header := h, cc := snd wr\<rparr>\<rparr>
           in case fst wr of
                None \<Rightarrow> w3
              | Some err \<Rightarrow>
                  (case removeCall w3 sq of
                     (None, w4) \<Rightarrow> w4
                   | (Some c, w4) \<Rightarrow> call_done (set_Error w4 c err) c)))"

text \<open>
  One pass through the body of the loop in \<open>receive\<close>, after a header \<open>h\<close> has been
  read: the value left in \<open>err\<close> and the new state.
\<close>

definition receive_body :: "world \<Rightarrow> Header \<Rightarrow> error option \<times> world" where
  "receive_body w h =
     (case removeCall w (Seq h) of
        (None, w1) \<Rightarrow>
          (let rb = ReadBody (cc (cl w1)) None
           in (fst (fst rb), w1\<lparr>cl := (cl w1)\<lparr>cc := snd rb\<rparr>\<rparr>))
      | (Some call, w1) \<Rightarrow>
          (if Error h \<noteq> '''' then
             (let w2 = set_Error w1 call (Err (Error h));
                  rb = ReadBody (cc (cl w2)) None;
                  w3 = w2\<lparr>cl := (cl w2)\<lparr>cc := snd rb\<rparr>\<rparr>
              in (fst (fst rb), call_done w3 call))
           else
             (let rb = ReadBody (cc (cl w1)) (call_Reply (calls w1 call));
                  w2 = w1\<lparr>cl := (cl w1)\<lparr>cc := snd rb\<rparr>,
                          calls := (calls w1)(call := (calls w1 call)\<lparr>call_Reply := snd (fst rb)\<rparr>)\<rparr>;
                  w3 = (case fst (fst rb) of
                          None \<Rightarrow> w2
                        | Some e \<Rightarrow> set_Error w2 call (Err (''reading body error: '' @ Error_text e)))
              in (fst (fst rb), call_done w3 call))))"

lemma rdq_ReadHeader_Inr:
  "ReadHeader c = (Inr h, c') \<Longrightarrow> length (rdq c') < length (rdq c)"
  by (auto simp: ReadHeader_def split: list.splits item.splits)

lemma rdq_ReadBody: "length (rdq (snd (ReadBody c t))) \<le> length (rdq c)"
  by (auto simp: ReadBody_def split: list.splits item.splits)

lemma cl_call_done [simp]: "cl (call_done w r) = cl w"
  by (simp add: call_done_def)

lemma cl_set_Error [simp]: "cl (set_Error w r e) = cl w"
  by (simp add: set_Error_def)

lemma rdq_receive_body:
  "length (rdq (cc (cl (snd (receive_body w h))))) \<le> length (rdq (cc (cl w)))"
  using rdq_ReadBody [of "cc (cl w)"]
  by (auto simp: receive_body_def removeCall_def Let_def split: option.splits)

text \<open>
  The loop \<open>for err == nil\<close> of \<open>receive\<close>: it leaves with the error that ended it.
  Every pass consumes at least the header it read, so the loop ends when the stream does.
\<close>

function receive_loop :: "world \<Rightarrow> error \<times> world" where
  "receive_loop w =
     (case ReadHeader (cc (cl w)) of
        (Inl e, c') \<Rightarrow> (e, w\<lparr>cl := (cl w)\<lparr>cc := c'\<rparr>\<rparr>)
      | (Inr h, c') \<Rightarrow>
          (case receive_body (w\<lparr>cl := (cl w)\<lparr>cc := c'\<rparr>\<rparr>) h of
             (Some e, w') \<Rightarrow> (e, w')
           | (None, w') \<Rightarrow> receive_loop w'))"
  by pat_completeness auto
termination
proof (relation "measure (\<lambda>w. length (rdq (cc (cl w))))", goal_cases)
  case 1
  show ?case by simp
next
  case (2 w x1 c' h x1a w')
  have rh: "ReadHeader (cc (cl w)) = (Inr h, c')"
    using 2(1,2) by simp
  have rb: "snd (receive_body (w\<lparr>cl := (cl w)\<lparr>cc := c'\<rparr>\<rparr>) h) = w'"
    using 2(3) [symmetric] by simp
  have "length (rdq c') < length (rdq (cc (cl w)))"
    using rh by (rule rdq_ReadHeader_Inr)
  moreover have "length (rdq (cc (cl w'))) \<le> length (rdq c')"
    using rdq_receive_body [of "w\<lparr>cl := (cl w)\<lparr>cc := c'\<rparr>\<rparr>" h] rb by simp
  ultimately show ?case by simp
qed

declare receive_loop.simps [simp del]

definition receive :: "world \<Rightarrow> world" where
  "receive w = (case receive_loop w of (err, w') \<Rightarrow> terminateCalls w' err)"

section \<open>The handshake\<close>

definition Magic :: "32 word" where
  "Magic = 0x5a2b71c3"

definition GobType :: "32 word" where
  "GobType = 0"

definition JSONType :: "32 word" where
  "JSONType = 1"

definition CustomType :: "32 word" where
  "CustomType = 2"

text \<open>\<open>binary.BigEndian.PutUint32\<close> and \<open>binary.BigEndian.Uint32\<close> on a four-byte slice.\<close>

definition PutUint32 :: "32 word \<Rightarrow> byte list" where
  "PutUint32 v = [ucast (drop_bit 24 v), ucast (drop_bit 16 v), ucast (drop_bit 8 v), ucast v]"

fun Uint32 :: "byte list \<Rightarrow> 32 word" where
  "Uint32 (b0 # b1 # b2 # b3 # bs) =
     (push_bit 24 (ucast b0) OR push_bit 16 (ucast b1) OR push_bit 8 (ucast b2) OR ucast b3)"
| "Uint32 bs = 0"

text \<open>The decimal digits that \<open>%v\<close> prints for an unsigned number.\<close>

fun decimal :: "nat \<Rightarrow> string" where
  "decimal n =
     (if n < 10 then [''0123456789'' ! n]
      else decimal (n div 10) @ [''0123456789'' ! (n mod 10)])"

declare decimal.simps [simp del]

text \<open>
  The package variable \<open>NewCodecFuncMap\<close> maps a codec tag to a constructor.  After
  \<open>init\<close> it holds the gob constructor under \<open>GobType\<close> and nothing else; the
  constructor is seen through the interface, so it is a parameter here.
\<close>

type_synonym NewCodecFunc = "Conn \<Rightarrow> Codec"

definition NewCodecFuncMap :: "NewCodecFunc \<Rightarrow> (32 word \<rightharpoonup> NewCodecFunc)" where
  "NewCodecFuncMap NewGobCodec = [GobType \<mapsto> NewGobCodec]"

text \<open>
  \<open>NewClient\<close>: the error or the new client, and the connection as it is left.  The
  receive loop that \<open>NewClient\<close> starts runs on its own, as \<open>receive\<close> above.
\<close>

definition NewClient ::
  "(32 word \<rightharpoonup> NewCodecFunc) \<Rightarrow> Conn \<Rightarrow> 32 word \<Rightarrow> (error + Client) \<times> Conn" where
  "NewClient reg c codecType =
     (case reg codecType of
        None \<Rightarrow> (Inl (Err (''invalid codec type '' @ decimal (unat codecType))), c)
      | Some ncf \<Rightarrow>
          (let buf = PutUint32 Magic @ PutUint32 codecType;
               wr = conn_Write c buf
           in case snd (fst wr) of
                Some err \<Rightarrow> (Inl err, snd (conn_Close (snd wr)))
              | None \<Rightarrow>
                  (Inr \<lparr>cc = ncf (snd wr), flag = buf,
                        header = \<lparr>Seq = 0, Name = '''', Error = ''''\<rparr>,
                        seq = 1, pending = [], closing = False, shutdown = False\<rparr>,
                   snd wr)))"

section \<open>The service registry\<close>

text \<open>
  What reflection yields for a registered method: its name, the function behind it (given
  the argument and the reply placeholder, the reply's content afterwards and the returned
  error), the shapes of argument and reply, and the call counter.  The field \<open>method\<close>
  of \<open>service\<close>, the table of its methods, is \<open>methods\<close> here.
\<close>

datatype rtype = TInt | TString | TStruct0 | TPair rtype rtype | TPtr rtype

fun zero :: "rtype \<Rightarrow> val" where
  "zero TInt = IntV 0"
| "zero TString = StrV ''''"
| "zero TStruct0 = Struct0"
| "zero (TPair a b) = PairV (zero a) (zero b)"
| "zero (TPtr t) = zero t"

record methodType =
  method_Name :: string
  method_Func :: "val \<Rightarrow> val \<Rightarrow> val \<times> error option"
  ArgType :: rtype
  ReplyType :: rtype
  numCalls :: "64 word"

definition newArgv :: "methodType \<Rightarrow> val" where
  "newArgv mt = (case ArgType mt of TPtr t \<Rightarrow> zero t | t \<Rightarrow> zero t)"

definition newReplyv :: "methodType \<Rightarrow> val" where
  "newReplyv mt = (case ReplyType mt of TPtr t \<Rightarrow> zero t | t \<Rightarrow> zero t)"

record service =
  name :: string
  methods :: "string \<rightharpoonup> methodType"

record Server =
  serviceMap :: "string \<rightharpoonup> service"

text \<open>\<open>strings.LastIndex(s, sep)\<close> for a one-byte \<open>sep\<close>: \<open>-1\<close> when absent.\<close>

fun last_index_from :: "nat \<Rightarrow> char \<Rightarrow> string \<Rightarrow> int \<Rightarrow> int" where
  "last_index_from i c [] found = found"
| "last_index_from i c (x # xs) found =
     last_index_from (Suc i) c xs (if x = c then int i else found)"

definition LastIndex :: "string \<Rightarrow> char \<Rightarrow> int" where
  "LastIndex s c = last_index_from 0 c s (- 1)"

definition findService ::
  "Server \<Rightarrow> string \<Rightarrow> service option \<times> methodType option \<times> error option" where
  "findService s nm =
     (let dot = LastIndex nm CHR ''.''
      in if dot < 0 then
           (None, None,
            Some (Err (''rpc server: service name must be like '' @ [CHR 0x22] @
                       ''Service.Method'' @ [CHR 0x22])))
         else
           (let sName = take (nat dot) nm; mName = drop (nat dot + 1) nm
            in case serviceMap s sName of
                 None \<Rightarrow> (None, None, Some (Err (''rpc server: cannot find service '' @ sName)))
               | Some svc \<Rightarrow>
                   (case methods svc mName of
                      None \<Rightarrow>
                        (Some svc, None,
                         Some (Err (''rpc server: cannot find method '' @ mName @
                                    '' on service '' @ sName)))
                    | Some mt \<Rightarrow> (Some svc, Some mt, None))))"

text \<open>
  \<open>service.call\<close>: the counter of the method is raised in the registry, where the
  \<open>*methodType\<close> lives, and the function is run on the argument and the placeholder.
\<close>

definition bump :: "Server \<Rightarrow> string \<Rightarrow> string \<Rightarrow> Server" where
  "bump s sName mName =
     (case serviceMap s sName of
        None \<Rightarrow> s
      | Some svc \<Rightarrow>
          (case methods svc mName of
             None \<Rightarrow> s
           | Some mt \<Rightarrow>
               s\<lparr>serviceMap := (serviceMap s)(sName \<mapsto>
                    svc\<lparr>methods := (methods svc)(mName \<mapsto> mt\<lparr>numCalls := numCalls mt + 1\<rparr>)\<rparr>)\<rparr>))"

definition call ::
  "Server \<Rightarrow> service \<Rightarrow> methodType \<Rightarrow> val \<Rightarrow> val \<Rightarrow> (val \<times> error option) \<times> Server" where
  "call s svc m argv replyv =
     (method_Func m argv replyv, bump s (name svc) (method_Name m))"

section \<open>The server\<close>

text \<open>
  A \<open>request\<close> that has been filled in: \<open>readRequest\<close> hands one out only after both
  service and method were found.
\<close>

record request =
  req_h :: Header
  req_svc :: service
  req_mType :: methodType
  req_argv :: val
  req_replyv :: val

definition readRequestHeader :: "Codec \<Rightarrow> (Header option \<times> error option) \<times> Codec" where
  "readRequestHeader c =
     (case ReadHeader c of
        (Inl err, c') \<Rightarrow> ((None, Some err), c')
      | (Inr h, c') \<Rightarrow> ((Some h, None), c'))"

definition readRequest :: "Server \<Rightarrow> Codec \<Rightarrow> (request option \<times> error option) \<times> Codec" where
  "readRequest s c =
     (case readRequestHeader c of
        ((_, Some err), c1) \<Rightarrow> ((None, Some err), c1)
      | ((None, None), c1) \<Rightarrow> ((None, None), c1)
      | ((Some h, None), c1) \<Rightarrow>
          (case findService s (Name h) of
             (_, _, Some err) \<Rightarrow> ((None, Some err), c1)
           | (None, _, None) \<Rightarrow> ((None, None), c1)
           | (Some svc, None, None) \<Rightarrow> ((None, None), c1)
           | (Some svc, Some mt, None) \<Rightarrow>
               (let rb = ReadBody c1 (Some (newArgv mt))
                in ((Some \<lparr>req_h = h, req_svc = svc, req_mType = mt,
                           req_argv = (case snd (fst rb) of Some v \<Rightarrow> v | None \<Rightarrow> newArgv mt),
                           req_replyv = newReplyv mt\<rparr>,
                     None),
                    snd rb))))"

definition writeResponse :: "Codec \<Rightarrow> Header \<Rightarrow> val \<Rightarrow> Codec" where
  "writeResponse c h body = snd (Write c h body)"

definition handleRequest :: "Server \<Rightarrow> Codec \<Rightarrow> request \<Rightarrow> Server \<times> Codec" where
  "handleRequest s c req =
     (case call s (req_svc req) (req_mType req) (req_argv req) (req_replyv req) of
        ((rv, Some err), s') \<Rightarrow>
          (let h = (req_h req)\<lparr>Error := Error_text err\<rparr>;
               c1 = writeResponse c h Struct0
           in (s', writeResponse c1 h rv))
      | ((rv, None), s') \<Rightarrow> (s', writeResponse c (req_h req) rv))"

lemma rdq_readRequest_Some:
  assumes "readRequest s c = ((Some req, e), c')"
  shows "length (rdq c') < length (rdq c)"
proof -
  obtain h c1 where rh: "ReadHeader c = (Inr h, c1)"
    using assms
    by (auto simp: readRequest_def readRequestHeader_def split: prod.splits sum.splits)
  obtain t where "c' = snd (ReadBody c1 t)"
    using assms rh
    by (auto simp: readRequest_def readRequestHeader_def Let_def
             split: prod.splits option.splits)
  then have "length (rdq c') \<le> length (rdq c1)"
    by (simp add: rdq_ReadBody)
  with rdq_ReadHeader_Inr [OF rh] show ?thesis
    by simp
qed

lemma rdq_writeResponse [simp]: "rdq (writeResponse c h b) = rdq c"
  by (simp add: writeResponse_def Write_def)

lemma rdq_handleRequest [simp]: "rdq (snd (handleRequest s c req)) = rdq c"
  by (simp add: handleRequest_def Let_def split: prod.splits option.splits)

text \<open>
  The loop of \<open>serveCodec\<close>.  Each \<open>go\<close> statement is run to its end where it is
  started, which is one of the schedules the send lock allows.  A nil request without an
  error is not something \<open>readRequest\<close> returns; the loop stops there.
\<close>

function serve_loop :: "Server \<Rightarrow> Codec \<Rightarrow> Server \<times> Codec" where
  "serve_loop s c =
     (case readRequest s c of
        ((None, _), c1) \<Rightarrow> (s, c1)
      | ((Some req, Some err), c1) \<Rightarrow>
          serve_loop s (writeResponse c1 ((req_h req)\<lparr>Error := Error_text err\<rparr>) Struct0)
      | ((Some req, None), c1) \<Rightarrow>
          (case handleRequest s c1 req of (s', c2) \<Rightarrow> serve_loop s' c2))"
  by pat_completeness auto
termination
proof (relation "measure (\<lambda>(s, c). length (rdq c))", goal_cases)
  case 1
  show ?case by simp
next
  case (2 s c x y xa ya req s' c2)
  have rr: "readRequest s c = ((Some req, None), y)"
    using 2(1,2,3,4) by simp
  have "rdq c2 = rdq y"
    using rdq_handleRequest [of s y req] 2(5) [symmetric] by simp
  with rdq_readRequest_Some [OF rr] show ?case
    by simp
next
  case (3 s c x y xa ya req err)
  have rr: "readRequest s c = ((Some req, Some err), y)"
    using 3(1,2,3,4) by simp
  from rdq_readRequest_Some [OF rr] show ?case
    by simp
qed

declare serve_loop.simps [simp del]

definition serveCodec :: "Server \<Rightarrow> Codec \<Rightarrow> Server \<times> Codec" where
  "serveCodec s c = (case serve_loop s c of (s', c') \<Rightarrow> (s', snd (Close c')))"

text \<open>
  \<open>ServeConn\<close>: the server, the connection as it is left, and the codec that served it,
  if one was built.
\<close>

definition ServeConn ::
  "Server \<Rightarrow> (32 word \<rightharpoonup> NewCodecFunc) \<Rightarrow> Conn \<Rightarrow> Server \<times> Conn \<times> Codec option" where
  "ServeConn s reg c =
     (case ReadFull c 8 of
        ((buf, Some err), c1) \<Rightarrow> (s, snd (conn_Close c1), None)
      | ((buf, None), c1) \<Rightarrow>
          (if Uint32 (take 4 buf) \<noteq> Magic then (s, snd (conn_Close c1), None)
           else case reg (Uint32 (drop 4 buf)) of
                  None \<Rightarrow> (s, snd (conn_Close c1), None)
                | Some ncf \<Rightarrow>
                    (case serveCodec s (ncf c1) of
                       (s', c') \<Rightarrow> (s', snd (conn_Close (conn c')), Some c'))))"

section \<open>The gob codec\<close>

text \<open>
  \<open>GobCodec\<close> holds the connection and a \<open>bufio.Writer\<close> on it: the bytes buffered and
  the error the writer keeps once a write to the connection has failed.  The encoding
  \<open>gob\<close> itself is a parameter: the bytes of a value, or the error of encoding it.
  The buffer is taken to hold a whole message, so that bytes reach the connection only in
  \<open>Flush\<close>.
\<close>

datatype gobval = GHeader Header | GVal val

record GobCodec =
  gconn :: Conn
  gbuf :: "byte list"
  gerr :: "error option"

definition Encode :: "(gobval \<Rightarrow> error + byte list) \<Rightarrow> GobCodec \<Rightarrow> gobval \<Rightarrow> error option \<times> GobCodec" where
  "Encode gob c x =
     (case gob x of
        Inl err \<Rightarrow> (Some err, c)
      | Inr bs \<Rightarrow>
          (case gerr c of
             Some err \<Rightarrow> (Some err, c)
           | None \<Rightarrow> (None, c\<lparr>gbuf := gbuf c @ bs\<rparr>)))"

definition Flush :: "GobCodec \<Rightarrow> error option \<times> GobCodec" where
  "Flush c =
     (case gerr c of
        Some err \<Rightarrow> (Some err, c)
      | None \<Rightarrow>
          (if gbuf c = [] then (None, c)
           else case conn_Write (gconn c) (gbuf c) of
                  ((n, Some err), k) \<Rightarrow> (Some err, c\<lparr>gconn := k, gerr := Some err\<rparr>)
                | ((n, None), k) \<Rightarrow> (None, c\<lparr>gconn := k, gbuf := []\<rparr>)))"

definition gob_Close :: "GobCodec \<Rightarrow> error option \<times> GobCodec" where
  "gob_Close c = (fst (conn_Close (gconn c)), c\<lparr>gconn := snd (conn_Close (gconn c))\<rparr>)"

text \<open>
  \<open>GobCodec.Write\<close>: the body runs to its \<open>return\<close>, then the deferred function
  flushes and, when the returned error is not nil, closes.
\<close>

definition gob_Write ::
  "(gobval \<Rightarrow> error + byte list) \<Rightarrow> GobCodec \<Rightarrow> Header \<Rightarrow> val \<Rightarrow> error option \<times> GobCodec" where
  "gob_Write gob c h body =
     (let ret = (case Encode gob c (GHeader h) of
                   (Some err, c1) \<Rightarrow> (Some err, c1)
                 | (None, c1) \<Rightarrow>
                     (case Encode gob c1 (GVal body) of
                        (Some err, c2) \<Rightarrow> (Some err, c2)
                      | (None, c2) \<Rightarrow> (None, c2)));
          c3 = snd (Flush (snd ret))
      in if fst ret \<noteq> None then (fst ret, snd (gob_Close c3)) else (fst ret, c3))"

section \<open>Sample states\<close>

text \<open>Concrete states on which the properties below are exercised.\<close>

definition conn0 :: Conn where
  "conn0 = \<lparr>rx = [], tx = [], closed = False, wfault = None\<rparr>"

definition codec0 :: "item list \<Rightarrow> Codec" where
  "codec0 q = \<lparr>conn = conn0, rdq = q, wlog = [], wfail = None\<rparr>"

definition call0 :: Call where
  "call0 = \<lparr>call_Name = ''Arith.Add'', call_Args = PairV (IntV 1) (IntV 2), call_Seq = 0,
            call_Error = None, call_Reply = Some (IntV 0), call_Done = 0\<rparr>"

definition client0 :: "item list \<Rightarrow> Client" where
  "client0 q = \<lparr>cc = codec0 q, flag = PutUint32 Magic @ PutUint32 GobType,
                header = \<lparr>Seq = 0, Name = '''', Error = ''''\<rparr>,
                seq = 1, pending = [], closing = False, shutdown = False\<rparr>"

text \<open>A client with one call, at address 5, pending under sequence number 1, and the stream
  \<open>q\<close> still to be read.\<close>

definition w_pending :: "item list \<Rightarrow> world" where
  "w_pending q = \<lparr>cl = (client0 q)\<lparr>seq := 2, pending := [(1, 5)]\<rparr>,
            calls = (\<lambda>r. call0), chans = (\<lambda>_. [])\<rparr>"

definition w_one :: world where
  "w_one = w_pending []"

text \<open>A client on which \<open>Close\<close> has been called.\<close>

definition w_closing :: world where
  "w_closing = \<lparr>cl = (client0 [])\<lparr>closing := True\<rparr>, calls = (\<lambda>r. call0), chans = (\<lambda>_. [])\<rparr>"

text \<open>A client as \<open>NewClient\<close> leaves it, with nothing to read.\<close>

definition w_fresh :: world where
  "w_fresh = \<lparr>cl = client0 [], calls = (\<lambda>r. call0), chans = (\<lambda>_. [])\<rparr>"

text \<open>A response header for the call pending in \<open>w_pending\<close>.\<close>

definition h1 :: Header where
  "h1 = \<lparr>Seq = 1, Name = ''Arith.Add'', Error = ''''\<rparr>"

text \<open>
  The service \<open>Arith\<close>: \<open>Add\<close> sets the reply to the sum, \<open>Div\<close> returns an error when
  the divisor is zero.
\<close>

definition Add :: methodType where
  "Add = \<lparr>method_Name = ''Add'',
          method_Func = (\<lambda>a r. case a of PairV (IntV x) (IntV y) \<Rightarrow> (IntV (x + y), None)
                                        | _ \<Rightarrow> (r, Some (Err ''bad arguments''))),
          ArgType = TPtr (TPair TInt TInt), ReplyType = TPtr TInt, numCalls = 0\<rparr>"

definition Div :: methodType where
  "Div = \<lparr>method_Name = ''Div'',
          method_Func = (\<lambda>a r. case a of
                                 PairV (IntV x) (IntV y) \<Rightarrow>
                                   (if y = 0 then (r, Some (Err ''divide by zero''))
                                    else (IntV (x div y), None))
                               | _ \<Rightarrow> (r, Some (Err ''bad arguments''))),
          ArgType = TPtr (TPair TInt TInt), ReplyType = TPtr TInt, numCalls = 0\<rparr>"

definition Arith :: service where
  "Arith = \<lparr>name = ''Arith'', methods = [''Add'' \<mapsto> Add, ''Div'' \<mapsto> Div]\<rparr>"

definition srv :: Server where
  "srv = \<lparr>serviceMap = [''Arith'' \<mapsto> Arith]\<rparr>"

definition hdr :: "64 word \<Rightarrow> string \<Rightarrow> Header" where
  "hdr n nm = \<lparr>Seq = n, Name = nm, Error = ''''\<rparr>"

text \<open>A codec constructor whose decoder yields the stream \<open>q\<close>.\<close>

definition sample_NewGobCodec :: "item list \<Rightarrow> NewCodecFunc" where
  "sample_NewGobCodec q c = \<lparr>conn = c, rdq = q, wlog = [], wfail = None\<rparr>"

text \<open>A connection on which every write fails.\<close>

definition conn_broken :: Conn where
  "conn_broken = conn0\<lparr>wfault := Some (Err ''broken pipe'')\<rparr>"

definition reg0 :: "item list \<Rightarrow> (32 word \<rightharpoonup> NewCodecFunc)" where
  "reg0 q = NewCodecFuncMap (sample_NewGobCodec q)"

definition args12 :: val where
  "args12 = PairV (IntV 1) (IntV 2)"

text \<open>The request that \<open>readRequest\<close> builds for \<open>Arith.Div\<close> with the arguments 1 and 0.\<close>

definition req_div0 :: request where
  "req_div0 = \<lparr>req_h = hdr 1 ''Arith.Div'', req_svc = Arith, req_mType = Div,
                req_argv = PairV (IntV 1) (IntV 0), req_replyv = IntV 0\<rparr>"

text \<open>Preambles: magic and gob tag; a wrong last byte of the magic; the tag \<open>JSONType\<close>.\<close>

definition preamble_ok :: "byte list" where
  "preamble_ok = [0x5a, 0x2b, 0x71, 0xc3, 0, 0, 0, 0]"

definition preamble_bad_magic :: "byte list" where
  "preamble_bad_magic = [0x5a, 0x2b, 0x71, 0xc4, 0, 0, 0, 0]"

definition preamble_bad_tag :: "byte list" where
  "preamble_bad_tag = [0x5a, 0x2b, 0x71, 0xc3, 0, 0, 0, 1]"

definition q_add :: "item list" where
  "q_add = [Hdr (hdr 1 ''Arith.Add''), Body args12]"

text \<open>An encoding that always succeeds, and a gob codec on the broken connection.\<close>

definition sample_gob :: "gobval \<Rightarrow> error + byte list" where
  "sample_gob x = (case x of GHeader h \<Rightarrow> Inr [1] | GVal v \<Rightarrow> Inr [2])"

definition gob_broken :: GobCodec where
  "gob_broken = \<lparr>gconn = conn_broken, gbuf = [], gerr = None\<rparr>"

section \<open>The pending table\<close>

text \<open>
  C9.  \<open>removeCall\<close> returns what the pending table holds under the sequence number
  (the call, or nil when there is none) and deletes that entry, leaving the others.
  Removing a number that is absent changes nothing and returns nil; in particular a
  second removal of the same number does.
\<close>

theorem removeCall_idempotent:
  "fst (removeCall w s) = map_of (pending (cl w)) s \<and>
   map_of (pending (cl (snd (removeCall w s)))) = (map_of (pending (cl w)))(s := None) \<and>
   (map_of (pending (cl w)) s = None \<longrightarrow> removeCall w s = (None, w)) \<and>
   removeCall (snd (removeCall w s)) s = (None, snd (removeCall w s))"
proof -
  have absent: "AList.delete s ps = ps" if "map_of ps s = None" for ps :: "(64 word \<times> ref) list"
    using that by (simp add: map_of_eq_None_iff)
  show ?thesis
    by (simp add: removeCall_def delete_conv' delete_idem absent)
qed

theorem removeCall_idempotent_witness:
  "fst (removeCall w_one 1) = Some 5 \<and>
   pending (cl (snd (removeCall w_one 1))) = [] \<and>
   removeCall w_one 2 = (None, w_one) \<and>
   removeCall (snd (removeCall w_one 1)) 1 = (None, snd (removeCall w_one 1))"
  using removeCall_idempotent [of w_one 1] removeCall_idempotent [of w_one 2]
  by (simp add: w_one_def w_pending_def client0_def removeCall_def)

section \<open>Sending on a client that is closing or shut down\<close>

text \<open>
  C4.  When the client is closing or shut down, \<open>send\<close> leaves the client as it is:
  the sequence counter, the pending table and the codec (what was written to it, and its
  connection) are unchanged.  The call gets \<open>ErrShutDown\<close> as its error and is sent on
  its \<open>Done\<close> channel.
\<close>

theorem send_when_unavailable:
  assumes "closing (cl w) \<or> shutdown (cl w)"
  shows "cl (send w r) = cl w \<and>
         seq (cl (send w r)) = seq (cl w) \<and>
         pending (cl (send w r)) = pending (cl w) \<and>
         wlog (cc (cl (send w r))) = wlog (cc (cl w)) \<and>
         conn (cc (cl (send w r))) = conn (cc (cl w)) \<and>
         calls (send w r) = (calls w)(r := (calls w r)\<lparr>call_Error := Some ErrShutDown\<rparr>) \<and>
         chans (send w r) =
           (chans w)(call_Done (calls w r) := chans w (call_Done (calls w r)) @ [r])"
  using assms by (auto simp: send_def addCall_def set_Error_def call_done_def)

theorem send_when_unavailable_witness:
  "closing (cl w_closing) \<and> cl (send w_closing 5) = cl w_closing \<and> seq (cl (send w_closing 5)) = 1 \<and>
   pending (cl (send w_closing 5)) = [] \<and> wlog (cc (cl (send w_closing 5))) = [] \<and>
   call_Error (calls (send w_closing 5) 5) = Some ErrShutDown \<and>
   chans (send w_closing 5) 0 = [5]"
  using send_when_unavailable [of w_closing 5]
  by (simp add: w_closing_def client0_def codec0_def call0_def)

section \<open>Sequence numbers\<close>

lemma addCall_open:
  assumes "\<not> closing (cl w)" "\<not> shutdown (cl w)"
  shows "fst (addCall w r) = (seq (cl w), None)"
    and "seq (cl (snd (addCall w r))) = seq (cl w) + 1"
    and "pending (cl (snd (addCall w r))) = AList.update (seq (cl w)) r (pending (cl w))"
    and "closing (cl (snd (addCall w r))) = closing (cl w)"
    and "shutdown (cl (snd (addCall w r))) = shutdown (cl w)"
    and "calls (snd (addCall w r)) = (calls w)(r := (calls w r)\<lparr>call_Seq := seq (cl w)\<rparr>)"
  using assms by (simp_all add: addCall_def)

lemma addCalls_flags:
  "\<not> closing (cl w) \<Longrightarrow> \<not> shutdown (cl w) \<Longrightarrow>
   \<not> closing (cl (addCalls w rs)) \<and> \<not> shutdown (cl (addCalls w rs)) \<and>
   seq (cl (addCalls w rs)) = seq (cl w) + of_nat (length rs)"
  by (induction rs arbitrary: w) (simp_all add: addCall_open)

lemma addCalls_frame_pending:
  "\<not> closing (cl w) \<Longrightarrow> \<not> shutdown (cl w) \<Longrightarrow>
   \<forall>i<length rs. k \<noteq> seq (cl w) + of_nat i \<Longrightarrow>
   map_of (pending (cl (addCalls w rs))) k = map_of (pending (cl w)) k"
proof (induction rs arbitrary: w)
  case Nil
  then show ?case by simp
next
  case (Cons r rs)
  let ?w1 = "snd (addCall w r)"
  have k0: "k \<noteq> seq (cl w)"
    using Cons.prems(3) [rule_format, of 0] by simp
  have "\<forall>i<length rs. k \<noteq> seq (cl ?w1) + of_nat i"
  proof (intro allI impI)
    fix i assume "i < length rs"
    have "k \<noteq> seq (cl w) + of_nat (Suc i)"
      using Cons.prems(3) [rule_format, of "Suc i"] \<open>i < length rs\<close> by simp
    then show "k \<noteq> seq (cl ?w1) + of_nat i"
      by (simp add: addCall_open Cons.prems add.assoc)
  qed
  then have "map_of (pending (cl (addCalls ?w1 rs))) k = map_of (pending (cl ?w1)) k"
    using Cons.IH [of ?w1] Cons.prems by (simp add: addCall_open)
  then show ?case
    using k0 by (simp add: addCall_open Cons.prems update_conv')
qed

lemma addCalls_frame_calls:
  "r \<notin> set rs \<Longrightarrow> calls (addCalls w rs) r = calls w r"
  by (induction rs arbitrary: w) (auto simp: addCall_def)

lemma of_nat_word64_neq_0:
  assumes "0 < n" "n < 2 ^ 64"
  shows "(of_nat n :: 64 word) \<noteq> 0"
proof
  assume "(of_nat n :: 64 word) = 0"
  then have "2 ^ LENGTH(64) dvd n"
    by (simp only: word_of_nat_eq_0_iff)
  then have "(2::nat) ^ 64 \<le> n"
    using assms(1) by (auto dest: dvd_imp_le)
  with assms(2) show False by linarith
qed


lemma of_nat_word64_inj:
  assumes "i < 2 ^ 64" "j < 2 ^ 64" "(of_nat i :: 64 word) = of_nat j"
  shows "i = j"
proof -
  have "unat (of_nat i :: 64 word) = unat (of_nat j :: 64 word)"
    using assms(3) by simp
  then have "i mod 2 ^ 64 = j mod 2 ^ 64"
    by (simp only: unat_of_nat len_bit0 len_num1 mult_1_right mult_2 numeral_Bit0 [symmetric])
  with assms(1,2) show ?thesis
    by (simp only: mod_less)
qed

lemma distinct_ref_length:
  assumes "distinct (rs :: ref list)"
  shows "length rs \<le> 2 ^ 64"
proof -
  have "length rs = card (set rs)"
    using assms by (simp add: distinct_card)
  also have "\<dots> \<le> card (UNIV :: 64 word set)"
    by (rule card_mono) simp_all
  also have "\<dots> = 2 ^ 64"
    by (simp only: card_word) simp
  finally show ?thesis .
qed

lemma addCalls_pending:
  "\<not> closing (cl w) \<Longrightarrow> \<not> shutdown (cl w) \<Longrightarrow> length rs \<le> 2 ^ 64 \<Longrightarrow> i < length rs \<Longrightarrow>
   map_of (pending (cl (addCalls w rs))) (seq (cl w) + of_nat i) = Some (rs ! i)"
proof (induction rs arbitrary: w i)
  case Nil
  then show ?case by simp
next
  case (Cons r rs)
  let ?w1 = "snd (addCall w r)"
  have op1: "\<not> closing (cl ?w1)" "\<not> shutdown (cl ?w1)"
    using Cons.prems(1,2) by (simp_all add: addCall_open)
  have sq1: "seq (cl ?w1) = seq (cl w) + 1"
    using Cons.prems(1,2) by (simp add: addCall_open)
  have len: "length rs < 2 ^ 64"
    using Cons.prems(3) by simp
  show ?case
  proof (cases i)
    case 0
    have "\<forall>j<length rs. seq (cl w) \<noteq> seq (cl ?w1) + of_nat j"
    proof (intro allI impI)
      fix j assume "j < length rs"
      then have "Suc j < 2 ^ 64" using len by linarith
      then have "(of_nat (Suc j) :: 64 word) \<noteq> 0"
        by (intro of_nat_word64_neq_0) simp_all
      then show "seq (cl w) \<noteq> seq (cl ?w1) + of_nat j"
        by (simp add: sq1 add.assoc)
    qed
    then have "map_of (pending (cl (addCalls ?w1 rs))) (seq (cl w)) =
               map_of (pending (cl ?w1)) (seq (cl w))"
      using addCalls_frame_pending [of ?w1 rs "seq (cl w)"] op1 by simp
    then show ?thesis
      using 0 Cons.prems(1,2) by (simp add: addCall_open update_conv')
  next
    case (Suc j)
    then have "j < length rs" using Cons.prems(4) by simp
    then have "map_of (pending (cl (addCalls ?w1 rs))) (seq (cl ?w1) + of_nat j) = Some (rs ! j)"
      using Cons.IH [of ?w1 j] op1 len by simp
    then show ?thesis
      using Suc by (simp add: sq1 add.assoc)
  qed
qed

lemma addCalls_Seq:
  "\<not> closing (cl w) \<Longrightarrow> \<not> shutdown (cl w) \<Longrightarrow> distinct rs \<Longrightarrow> i < length rs \<Longrightarrow>
   call_Seq (calls (addCalls w rs) (rs ! i)) = seq (cl w) + of_nat i"
proof (induction rs arbitrary: w i)
  case Nil
  then show ?case by simp
next
  case (Cons r rs)
  let ?w1 = "snd (addCall w r)"
  have op1: "\<not> closing (cl ?w1)" "\<not> shutdown (cl ?w1)"
    using Cons.prems(1,2) by (simp_all add: addCall_open)
  have sq1: "seq (cl ?w1) = seq (cl w) + 1"
    using Cons.prems(1,2) by (simp add: addCall_open)
  show ?case
  proof (cases i)
    case 0
    have "r \<notin> set rs" using Cons.prems(3) by simp
    then have "calls (addCalls ?w1 rs) r = calls ?w1 r"
      by (rule addCalls_frame_calls)
    then show ?thesis
      using 0 Cons.prems(1,2) by (simp add: addCall_open)
  next
    case (Suc j)
    then have "j < length rs" using Cons.prems(4) by simp
    then have "call_Seq (calls (addCalls ?w1 rs) (rs ! j)) = seq (cl ?w1) + of_nat j"
      using Cons.IH [of ?w1 j] op1 Cons.prems(3) by simp
    then show ?thesis
      using Suc by (simp add: sq1 add.assoc)
  qed
qed

lemma removeCall_keeps_seq: "seq (cl (snd (removeCall w s))) = seq (cl w)"
  by (simp add: removeCall_def)

text \<open>
  C8.  On a client that is neither closing nor shut down, enqueueing distinct calls one
  after the other, none completing in between, gives them the consecutive numbers
  \<open>seq\<close>, \<open>seq + 1\<close>, \<dots> of the counter, which \<open>addCall\<close> raises by one each time.
  These numbers are pairwise distinct, and the pending table holds each call under its own
  number.  The counter is a \<open>uint64\<close> and wraps; a \<open>*Call\<close> is a 64-bit address, so
  there are at most \<open>2 ^ 64\<close> distinct calls and the counter cannot come back to a
  number that one of them holds.  Removing a call does not touch the counter.
\<close>

theorem addCall_sequence_unique:
  assumes "\<not> closing (cl w)" and "\<not> shutdown (cl w)" and "distinct rs"
  shows "map (\<lambda>r. call_Seq (calls (addCalls w rs) r)) rs =
           map (\<lambda>i. seq (cl w) + of_nat i) [0..<length rs] \<and>
         distinct (map (\<lambda>r. call_Seq (calls (addCalls w rs) r)) rs) \<and>
         (\<forall>r\<in>set rs. map_of (pending (cl (addCalls w rs))) (call_Seq (calls (addCalls w rs) r)) = Some r)"
proof -
  let ?w' = "addCalls w rs"
  let ?sq = "\<lambda>r. call_Seq (calls ?w' r)"
  have len: "length rs \<le> 2 ^ 64"
    using assms(3) by (rule distinct_ref_length)
  have nth: "?sq (rs ! i) = seq (cl w) + of_nat i" if "i < length rs" for i
    using addCalls_Seq [OF assms that] .
  have eq: "map ?sq rs = map (\<lambda>i. seq (cl w) + of_nat i) [0..<length rs]"
    by (rule nth_equalityI) (simp_all add: nth)
  have dist: "distinct (map ?sq rs)"
    unfolding distinct_conv_nth
  proof (intro allI impI)
    fix i j
    assume ij: "i < length (map ?sq rs)" "j < length (map ?sq rs)" "i \<noteq> j"
    show "map ?sq rs ! i \<noteq> map ?sq rs ! j"
    proof
      assume "map ?sq rs ! i = map ?sq rs ! j"
      then have "seq (cl w) + of_nat i = seq (cl w) + of_nat j"
        using ij nth by simp
      then have "(of_nat i :: 64 word) = of_nat j" by simp
      moreover have "i < 2 ^ 64" "j < 2 ^ 64" using ij len by simp_all
      ultimately have "i = j" by (intro of_nat_word64_inj)
      with ij(3) show False by simp
    qed
  qed
  have pend: "map_of (pending (cl ?w')) (?sq r) = Some r" if rin: "r \<in> set rs" for r
  proof -
    obtain i where i: "i < length rs" "rs ! i = r"
      using rin by (auto simp: in_set_conv_nth)
    have "map_of (pending (cl ?w')) (seq (cl w) + of_nat i) = Some (rs ! i)"
      using addCalls_pending [OF assms(1,2) len i(1)] .
    then show ?thesis using nth [OF i(1)] i(2) by simp
  qed
  from eq dist pend show ?thesis by blast
qed

theorem addCall_sequence_unique_witness:
  "\<not> closing (cl w_fresh) \<and> \<not> shutdown (cl w_fresh) \<and> distinct [5, 6, 7 :: ref] \<and>
   map (\<lambda>r. call_Seq (calls (addCalls w_fresh [5, 6, 7]) r)) [5, 6, 7] = [1, 2, 3] \<and>
   map_of (pending (cl (addCalls w_fresh [5, 6, 7]))) 1 = Some 5 \<and>
   map_of (pending (cl (addCalls w_fresh [5, 6, 7]))) 2 = Some 6 \<and>
   map_of (pending (cl (addCalls w_fresh [5, 6, 7]))) 3 = Some 7"
  using addCall_sequence_unique [of w_fresh "[5, 6, 7]"]
  by (simp add: w_fresh_def client0_def addCall_def call0_def)

section \<open>The end of the receive loop\<close>

lemma settle_step:
  "cl (call_done (set_Error w r e) r) = cl w"
  "calls (call_done (set_Error w r e) r) = (calls w)(r := (calls w r)\<lparr>call_Error := Some e\<rparr>)"
  "chans (call_done (set_Error w r e) r) =
     (chans w)(call_Done (calls w r) := chans w (call_Done (calls w r)) @ [r])"
  by (simp_all add: call_done_def set_Error_def)

lemma fold_settle_cl:
  "cl (fold (\<lambda>kr w'. call_done (set_Error w' (snd kr) e) (snd kr)) ps w0) = cl w0"
  by (induction ps arbitrary: w0) (simp_all add: settle_step)

lemma fold_settle_calls:
  "calls (fold (\<lambda>kr w'. call_done (set_Error w' (snd kr) e) (snd kr)) ps w0) r =
     (if r \<in> snd ` set ps then (calls w0 r)\<lparr>call_Error := Some e\<rparr> else calls w0 r)"
  by (induction ps arbitrary: w0) (auto simp: settle_step)

lemma settle_Done:
  "call_Done (calls (call_done (set_Error w b e) b) r) = call_Done (calls w r)"
  by (simp add: call_done_def set_Error_def)

lemma fold_settle_chans:
  "chans (fold (\<lambda>kr w'. call_done (set_Error w' (snd kr) e) (snd kr)) ps w0) ch =
     chans w0 ch @ filter (\<lambda>r. call_Done (calls w0 r) = ch) (map snd ps)"
  by (induction ps arbitrary: w0) (simp_all add: settle_step(3) settle_Done)

text \<open>
  C3, as the code has it.  When the loop of \<open>receive\<close> leaves with the error \<open>e\<close>,
  \<open>receive\<close> runs \<open>terminateCalls\<close> with \<open>e\<close>: the client is marked shut down, every
  call in the pending table gets \<open>e\<close> as its error and is sent once on its \<open>Done\<close>
  channel for each entry that holds it, and the pending table keeps its entries.
\<close>

theorem receive_terminates_calls:
  assumes "receive_loop w = (e, w1)"
  shows "receive w = terminateCalls w1 e \<and>
         shutdown (cl (receive w)) \<and>
         (\<forall>r \<in> snd ` set (pending (cl w1)). call_Error (calls (receive w) r) = Some e) \<and>
         (\<forall>ch. chans (receive w) ch =
                 chans w1 ch @ filter (\<lambda>r. call_Done (calls w1 r) = ch) (map snd (pending (cl w1)))) \<and>
         pending (cl (receive w)) = pending (cl w1)"
  using assms
  by (simp add: receive_def terminateCalls_def fold_settle_cl fold_settle_calls fold_settle_chans)

theorem receive_terminates_calls_witness:
  "receive_loop (w_pending []) = (EOF, w_pending []) \<and>
   shutdown (cl (receive (w_pending []))) \<and>
   call_Error (calls (receive (w_pending [])) 5) = Some EOF \<and>
   chans (receive (w_pending [])) 0 = [5] \<and>
   pending (cl (receive (w_pending []))) = [(1, 5)]"
proof -
  have loop: "receive_loop (w_pending []) = (EOF, w_pending [])"
    by (simp add: receive_loop.simps ReadHeader_def w_pending_def client0_def codec0_def)
  show ?thesis
    using receive_terminates_calls [OF loop] loop
    by (simp add: receive_def terminateCalls_def) (simp add: w_pending_def call_done_def set_Error_def client0_def call0_def)
qed

text \<open>
  C3 as stated says that the pending table is left empty.  With one call pending and the
  stream at its end, the call is still in the table after \<open>receive\<close>.
\<close>

theorem pending_not_drained: "pending (cl (receive (w_pending []))) \<noteq> []"
proof -
  have loop: "receive_loop (w_pending []) = (EOF, w_pending [])"
    by (simp add: receive_loop.simps ReadHeader_def w_pending_def client0_def codec0_def)
  show ?thesis
    by (simp add: receive_def loop terminateCalls_def fold_settle_cl) (simp add: w_pending_def)
qed

section \<open>One response in the receive loop\<close>

lemma delete_absent:
  "map_of ps s = None \<Longrightarrow> AList.delete s ps = ps"
  by (simp add: map_of_eq_None_iff)

text \<open>
  C5.  For a header \<open>h\<close> that the loop of \<open>receive\<close> has read, the body of the loop does
  one of three things.  If no pending call has the number \<open>Seq h\<close>, the body is read
  with a nil target and nothing but the codec changes: no call is touched and nothing is
  sent on a channel.  If the call \<open>r\<close> is pending under \<open>Seq h\<close> and \<open>Error h\<close> is not
  empty, \<open>r\<close> gets the error \<open>errors.New(Error h)\<close>, the body is read with a nil target,
  and \<open>r\<close> is sent on its \<open>Done\<close> channel.  Otherwise the body is read into the reply
  target of \<open>r\<close>; when that fails with \<open>e\<close>, \<open>r\<close> gets the error
  \<open>reading body error: \<close> followed by the text of \<open>e\<close>; in both cases \<open>r\<close> is sent on
  its \<open>Done\<close> channel.
\<close>

theorem receive_body_cases:
  "(map_of (pending (cl w)) (Seq h) = None \<longrightarrow>
      receive_body w h =
        (fst (fst (ReadBody (cc (cl w)) None)),
         w\<lparr>cl := (cl w)\<lparr>cc := snd (ReadBody (cc (cl w)) None)\<rparr>\<rparr>)) \<and>
   (map_of (pending (cl w)) (Seq h) = Some r \<and> Error h \<noteq> '''' \<longrightarrow>
      fst (receive_body w h) = fst (fst (ReadBody (cc (cl w)) None)) \<and>
      cc (cl (snd (receive_body w h))) = snd (ReadBody (cc (cl w)) None) \<and>
      calls (snd (receive_body w h)) =
        (calls w)(r := (calls w r)\<lparr>call_Error := Some (Err (Error h))\<rparr>) \<and>
      chans (snd (receive_body w h)) =
        (chans w)(call_Done (calls w r) := chans w (call_Done (calls w r)) @ [r])) \<and>
   (map_of (pending (cl w)) (Seq h) = Some r \<and> Error h = '''' \<longrightarrow>
      fst (receive_body w h) = fst (fst (ReadBody (cc (cl w)) (call_Reply (calls w r)))) \<and>
      cc (cl (snd (receive_body w h))) = snd (ReadBody (cc (cl w)) (call_Reply (calls w r))) \<and>
      calls (snd (receive_body w h)) =
        (calls w)(r := (calls w r)
          \<lparr>call_Reply := snd (fst (ReadBody (cc (cl w)) (call_Reply (calls w r)))),
           call_Error :=
             (case fst (fst (ReadBody (cc (cl w)) (call_Reply (calls w r)))) of
                None \<Rightarrow> call_Error (calls w r)
              | Some e \<Rightarrow> Some (Err (''reading body error: '' @ Error_text e)))\<rparr>) \<and>
      chans (snd (receive_body w h)) =
        (chans w)(call_Done (calls w r) := chans w (call_Done (calls w r)) @ [r]))"
proof (intro conjI impI)
  assume "map_of (pending (cl w)) (Seq h) = None"
  then show "receive_body w h =
        (fst (fst (ReadBody (cc (cl w)) None)),
         w\<lparr>cl := (cl w)\<lparr>cc := snd (ReadBody (cc (cl w)) None)\<rparr>\<rparr>)"
    by (simp add: receive_body_def removeCall_def Let_def delete_absent)
next
  assume a: "map_of (pending (cl w)) (Seq h) = Some r \<and> Error h \<noteq> ''''"
  then have rc: "removeCall w (Seq h) =
      (Some r, w\<lparr>cl := (cl w)\<lparr>pending := AList.delete (Seq h) (pending (cl w))\<rparr>\<rparr>)"
    by (simp add: removeCall_def)
  show "fst (receive_body w h) = fst (fst (ReadBody (cc (cl w)) None))"
    using a by (simp add: receive_body_def rc Let_def)
  show "cc (cl (snd (receive_body w h))) = snd (ReadBody (cc (cl w)) None)"
    using a by (simp add: receive_body_def rc Let_def)
  show "calls (snd (receive_body w h)) =
        (calls w)(r := (calls w r)\<lparr>call_Error := Some (Err (Error h))\<rparr>)"
    using a by (simp add: receive_body_def rc Let_def call_done_def set_Error_def)
  show "chans (snd (receive_body w h)) =
        (chans w)(call_Done (calls w r) := chans w (call_Done (calls w r)) @ [r])"
    using a by (simp add: receive_body_def rc Let_def call_done_def set_Error_def)
next
  assume a: "map_of (pending (cl w)) (Seq h) = Some r \<and> Error h = ''''"
  then have rc: "removeCall w (Seq h) =
      (Some r, w\<lparr>cl := (cl w)\<lparr>pending := AList.delete (Seq h) (pending (cl w))\<rparr>\<rparr>)"
    by (simp add: removeCall_def)
  let ?rb = "ReadBody (cc (cl w)) (call_Reply (calls w r))"
  show "fst (receive_body w h) = fst (fst ?rb)"
    using a by (simp add: receive_body_def rc Let_def)
  show "cc (cl (snd (receive_body w h))) = snd ?rb"
    using a by (simp add: receive_body_def rc Let_def split: option.splits)
  show "calls (snd (receive_body w h)) =
        (calls w)(r := (calls w r)
          \<lparr>call_Reply := snd (fst ?rb),
           call_Error :=
             (case fst (fst ?rb) of
                None \<Rightarrow> call_Error (calls w r)
              | Some e \<Rightarrow> Some (Err (''reading body error: '' @ Error_text e)))\<rparr>)"
    using a
    by (cases "fst (fst ?rb)")
       (simp_all add: receive_body_def rc Let_def call_done_def set_Error_def)
  show "chans (snd (receive_body w h)) =
        (chans w)(call_Done (calls w r) := chans w (call_Done (calls w r)) @ [r])"
    using a
    by (cases "fst (fst ?rb)")
       (simp_all add: receive_body_def rc Let_def call_done_def set_Error_def)
qed

theorem receive_body_cases_witness:
  "receive_body (w_pending [Body (IntV 3)]) (h1\<lparr>Seq := 9\<rparr>) = (None, w_pending []) \<and>
   call_Error (calls (snd (receive_body (w_pending [Body (IntV 3)]) (h1\<lparr>Error := ''boom''\<rparr>))) 5)
     = Some (Err ''boom'') \<and>
   call_Reply (calls (snd (receive_body (w_pending [Body (IntV 3)]) (h1\<lparr>Error := ''boom''\<rparr>))) 5)
     = Some (IntV 0) \<and>
   chans (snd (receive_body (w_pending [Body (IntV 3)]) (h1\<lparr>Error := ''boom''\<rparr>))) 0 = [5] \<and>
   call_Reply (calls (snd (receive_body (w_pending [Body (IntV 3)]) h1)) 5) = Some (IntV 3) \<and>
   call_Error (calls (snd (receive_body (w_pending [Body (IntV 3)]) h1)) 5) = None \<and>
   chans (snd (receive_body (w_pending [Body (IntV 3)]) h1)) 0 = [5] \<and>
   call_Error (calls (snd (receive_body (w_pending [Fault (Err ''bad'')]) h1)) 5)
     = Some (Err ''reading body error: bad'') \<and>
   chans (snd (receive_body (w_pending [Fault (Err ''bad'')]) h1)) 0 = [5]"
  using receive_body_cases [of "w_pending [Body (IntV 3)]" "h1\<lparr>Seq := 9\<rparr>" 5]
        receive_body_cases [of "w_pending [Body (IntV 3)]" "h1\<lparr>Error := ''boom''\<rparr>" 5]
        receive_body_cases [of "w_pending [Body (IntV 3)]" h1 5]
        receive_body_cases [of "w_pending [Fault (Err ''bad'')]" h1 5]
  by (simp add: w_pending_def client0_def codec0_def call0_def h1_def ReadBody_def)

section \<open>The handshake of the client\<close>

lemma PutUint32_Magic: "PutUint32 Magic = [0x5a, 0x2b, 0x71, 0xc3]"
  by (simp add: PutUint32_def Magic_def)

lemma length_PutUint32 [simp]: "length (PutUint32 v) = 4"
  by (simp add: PutUint32_def)

lemma Uint32_PutUint32: "Uint32 (PutUint32 v @ bs) = v"
proof (rule bit_word_eqI)
  fix n
  assume "n < LENGTH(32)"
  then consider "n < 8" | "8 \<le> n" "n < 16" | "16 \<le> n" "n < 24" | "24 \<le> n" "n < 32"
    by fastforce
  then show "bit (Uint32 (PutUint32 v @ bs)) n = bit v n"
    by cases (auto simp: PutUint32_def bit_simps)
qed

text \<open>
  C6.  \<open>NewClient\<close> with a tag that the registry does not hold returns the error
  \<open>invalid codec type\<close> and leaves the connection untouched.  With a tag that it holds,
  on a connection that takes the write, it writes eight bytes: the four bytes
  \<open>5a 2b 71 c3\<close> of the magic number, then the four bytes of the tag, each most
  significant byte first (\<open>Uint32\<close> reads both back).  When the write fails,
  \<open>NewClient\<close> returns the error of the write and the connection is closed.
\<close>

theorem NewClient_handshake:
  "(reg t = None \<longrightarrow>
      NewClient reg c t = (Inl (Err (''invalid codec type '' @ decimal (unat t))), c)) \<and>
   (reg t = Some ncf \<and> \<not> closed c \<and> wfault c = None \<longrightarrow>
      tx (snd (NewClient reg c t)) = tx c @ [0x5a, 0x2b, 0x71, 0xc3] @ PutUint32 t \<and>
      length ([0x5a, 0x2b, 0x71, 0xc3] @ PutUint32 t) = 8 \<and>
      Uint32 (PutUint32 Magic @ PutUint32 t) = Magic \<and>
      Uint32 (PutUint32 t) = t \<and>
      \<not> closed (snd (NewClient reg c t)) \<and>
      fst (NewClient reg c t) =
        Inr \<lparr>cc = ncf (snd (NewClient reg c t)), flag = PutUint32 Magic @ PutUint32 t,
              header = \<lparr>Seq = 0, Name = '''', Error = ''''\<rparr>,
              seq = 1, pending = [], closing = False, shutdown = False\<rparr>) \<and>
   (reg t = Some ncf \<and> snd (fst (conn_Write c (PutUint32 Magic @ PutUint32 t))) = Some e \<longrightarrow>
      fst (NewClient reg c t) = Inl e \<and>
      closed (snd (NewClient reg c t)) \<and>
      tx (snd (NewClient reg c t)) = tx c)"
proof (intro conjI impI)
  assume "reg t = None"
  then show "NewClient reg c t = (Inl (Err (''invalid codec type '' @ decimal (unat t))), c)"
    by (simp add: NewClient_def)
next
  assume a: "reg t = Some ncf \<and> \<not> closed c \<and> wfault c = None"
  then have nc: "NewClient reg c t =
      (Inr \<lparr>cc = ncf (c\<lparr>tx := tx c @ PutUint32 Magic @ PutUint32 t\<rparr>),
            flag = PutUint32 Magic @ PutUint32 t,
            header = \<lparr>Seq = 0, Name = '''', Error = ''''\<rparr>,
            seq = 1, pending = [], closing = False, shutdown = False\<rparr>,
       c\<lparr>tx := tx c @ PutUint32 Magic @ PutUint32 t\<rparr>)"
    by (simp add: NewClient_def conn_Write_def Let_def)
  show "tx (snd (NewClient reg c t)) = tx c @ [0x5a, 0x2b, 0x71, 0xc3] @ PutUint32 t"
    by (simp add: nc PutUint32_Magic)
  show "length ([0x5a, 0x2b, 0x71, 0xc3] @ PutUint32 t) = 8"
    by simp
  show "Uint32 (PutUint32 Magic @ PutUint32 t) = Magic"
    by (rule Uint32_PutUint32)
  show "Uint32 (PutUint32 t) = t"
    using Uint32_PutUint32 [of t "[]"] by simp
  show "\<not> closed (snd (NewClient reg c t))"
    using a by (simp add: nc)
  show "fst (NewClient reg c t) =
        Inr \<lparr>cc = ncf (snd (NewClient reg c t)), flag = PutUint32 Magic @ PutUint32 t,
              header = \<lparr>Seq = 0, Name = '''', Error = ''''\<rparr>,
              seq = 1, pending = [], closing = False, shutdown = False\<rparr>"
    by (simp add: nc)
next
  assume a: "reg t = Some ncf \<and> snd (fst (conn_Write c (PutUint32 Magic @ PutUint32 t))) = Some e"
  then have unchanged: "snd (conn_Write c (PutUint32 Magic @ PutUint32 t)) = c"
    by (auto simp: conn_Write_def split: if_splits option.splits)
  show "fst (NewClient reg c t) = Inl e"
    using a by (simp add: NewClient_def Let_def)
  show "closed (snd (NewClient reg c t))"
    using a by (simp add: NewClient_def Let_def unchanged conn_Close_def)
  show "tx (snd (NewClient reg c t)) = tx c"
    using a by (simp add: NewClient_def Let_def unchanged conn_Close_def)
qed

theorem NewClient_handshake_witness:
  "NewClient (NewCodecFuncMap (sample_NewGobCodec [])) conn0 JSONType =
     (Inl (Err ''invalid codec type 1''), conn0) \<and>
   tx (snd (NewClient (NewCodecFuncMap (sample_NewGobCodec [])) conn0 GobType)) =
     [0x5a, 0x2b, 0x71, 0xc3, 0, 0, 0, 0] \<and>
   fst (NewClient (NewCodecFuncMap (sample_NewGobCodec [])) conn_broken GobType) =
     Inl (Err ''broken pipe'') \<and>
   closed (snd (NewClient (NewCodecFuncMap (sample_NewGobCodec [])) conn_broken GobType)) \<and>
   tx (snd (NewClient (NewCodecFuncMap (sample_NewGobCodec [])) conn_broken GobType)) = []"
  using NewClient_handshake [where reg = "NewCodecFuncMap (sample_NewGobCodec [])"
                               and t = JSONType and c = conn0]
        NewClient_handshake [where reg = "NewCodecFuncMap (sample_NewGobCodec [])"
                               and t = GobType and ncf = "sample_NewGobCodec []" and c = conn0]
        NewClient_handshake [where reg = "NewCodecFuncMap (sample_NewGobCodec [])"
                               and t = GobType and ncf = "sample_NewGobCodec []"
                               and c = conn_broken and e = "Err ''broken pipe''"]
  by (simp add: NewCodecFuncMap_def GobType_def JSONType_def conn0_def conn_broken_def
                conn_Write_def PutUint32_def decimal.simps)


section \<open>The handshake of the server\<close>

lemma ReadFull_8_short:
  "closed c \<or> length (rx c) < 8 \<Longrightarrow>
   \<exists>buf e c1. ReadFull c 8 = ((buf, Some e), c1) \<and> tx c1 = tx c"
  by (auto simp: ReadFull_def)

lemma ReadFull_8_ok:
  "\<not> closed c \<Longrightarrow> 8 \<le> length (rx c) \<Longrightarrow>
   ReadFull c 8 = ((take 8 (rx c), None), c\<lparr>rx := drop 8 (rx c)\<rparr>)"
  by (simp add: ReadFull_def)

lemma conn_Close_closed: "closed (snd (conn_Close c))"
  by (simp add: conn_Close_def)

lemma conn_Close_tx: "tx (snd (conn_Close c)) = tx c"
  by (simp add: conn_Close_def)

text \<open>
  C7.  \<open>ServeConn\<close> asks for eight bytes.  When the connection gives fewer, or the first
  four are not the magic number, or the registry holds no constructor for the tag in the
  next four, no codec is built and the connection is closed with nothing written on it.
  Otherwise the codec is built on the connection, from which exactly the eight bytes have
  been taken, and \<open>serveCodec\<close> runs on it.
\<close>

theorem ServeConn_preamble:
  "(closed c \<or> length (rx c) < 8 \<or> Uint32 (take 4 (rx c)) \<noteq> Magic \<or>
    reg (Uint32 (drop 4 (take 8 (rx c)))) = None \<longrightarrow>
      fst (ServeConn s reg c) = s \<and>
      snd (snd (ServeConn s reg c)) = None \<and>
      closed (fst (snd (ServeConn s reg c))) \<and>
      tx (fst (snd (ServeConn s reg c))) = tx c) \<and>
   (\<not> closed c \<and> 8 \<le> length (rx c) \<and> Uint32 (take 4 (rx c)) = Magic \<and>
    reg (Uint32 (drop 4 (take 8 (rx c)))) = Some ncf \<longrightarrow>
      ServeConn s reg c =
        (fst (serveCodec s (ncf (c\<lparr>rx := drop 8 (rx c)\<rparr>))),
         snd (conn_Close (conn (snd (serveCodec s (ncf (c\<lparr>rx := drop 8 (rx c)\<rparr>)))))),
         Some (snd (serveCodec s (ncf (c\<lparr>rx := drop 8 (rx c)\<rparr>))))))"
proof (intro conjI impI)
  assume bad: "closed c \<or> length (rx c) < 8 \<or> Uint32 (take 4 (rx c)) \<noteq> Magic \<or>
    reg (Uint32 (drop 4 (take 8 (rx c)))) = None"
  have "\<exists>c1. ServeConn s reg c = (s, snd (conn_Close c1), None) \<and> tx c1 = tx c"
  proof (cases "closed c \<or> length (rx c) < 8")
    case True
    then obtain buf e c1 where "ReadFull c 8 = ((buf, Some e), c1)" "tx c1 = tx c"
      using ReadFull_8_short by blast
    then show ?thesis
      by (intro exI [of _ c1]) (simp add: ServeConn_def)
  next
    case False
    then have rf: "ReadFull c 8 = ((take 8 (rx c), None), c\<lparr>rx := drop 8 (rx c)\<rparr>)"
      by (simp add: ReadFull_8_ok)
    from False bad have "Uint32 (take 4 (rx c)) \<noteq> Magic \<or>
        reg (Uint32 (drop 4 (take 8 (rx c)))) = None"
      by argo
    then show ?thesis
      by (intro exI [of _ "c\<lparr>rx := drop 8 (rx c)\<rparr>"]) (auto simp: ServeConn_def rf)
  qed
  then obtain c1 where sc: "ServeConn s reg c = (s, snd (conn_Close c1), None)" "tx c1 = tx c"
    by blast
  show "fst (ServeConn s reg c) = s"
    by (simp add: sc)
  show "snd (snd (ServeConn s reg c)) = None"
    by (simp add: sc)
  show "closed (fst (snd (ServeConn s reg c)))"
    by (simp add: sc conn_Close_closed)
  show "tx (fst (snd (ServeConn s reg c))) = tx c"
    by (simp add: sc conn_Close_tx)
next
  assume ok: "\<not> closed c \<and> 8 \<le> length (rx c) \<and> Uint32 (take 4 (rx c)) = Magic \<and>
    reg (Uint32 (drop 4 (take 8 (rx c)))) = Some ncf"
  then have rf: "ReadFull c 8 = ((take 8 (rx c), None), c\<lparr>rx := drop 8 (rx c)\<rparr>)"
    by (simp add: ReadFull_8_ok)
  show "ServeConn s reg c =
        (fst (serveCodec s (ncf (c\<lparr>rx := drop 8 (rx c)\<rparr>))),
         snd (conn_Close (conn (snd (serveCodec s (ncf (c\<lparr>rx := drop 8 (rx c)\<rparr>)))))),
         Some (snd (serveCodec s (ncf (c\<lparr>rx := drop 8 (rx c)\<rparr>)))))"
    using ok by (simp add: ServeConn_def rf split: prod.splits)
qed

lemma find_Add: "findService srv ''Arith.Add'' = (Some Arith, Some Add, None)"
  by (simp add: findService_def LastIndex_def Let_def srv_def Arith_def)

lemma find_Div: "findService srv ''Arith.Div'' = (Some Arith, Some Div, None)"
  by (simp add: findService_def LastIndex_def Let_def srv_def Arith_def)

lemma find_Missing:
  "findService srv ''Arith.Missing'' =
     (Some Arith, None, Some (Err ''rpc server: cannot find method Missing on service Arith''))"
  by (simp add: findService_def LastIndex_def Let_def srv_def Arith_def)

lemma serveCodec_Add:
  "wlog (snd (serveCodec srv (sample_NewGobCodec [Hdr (hdr 1 ''Arith.Add''), Body args12] c))) =
     [(hdr 1 ''Arith.Add'', IntV 3)]"
  by (simp add: serveCodec_def serve_loop.simps readRequest_def readRequestHeader_def
                ReadHeader_def ReadBody_def sample_NewGobCodec_def hdr_def find_Add
                handleRequest_def call_def writeResponse_def Write_def Close_def newArgv_def
                newReplyv_def Add_def args12_def Let_def)

theorem ServeConn_preamble_witness:
  "snd (snd (ServeConn srv (reg0 q_add) (conn0\<lparr>rx := [0x5a, 0x2b]\<rparr>))) = None \<and>
   closed (fst (snd (ServeConn srv (reg0 q_add) (conn0\<lparr>rx := [0x5a, 0x2b]\<rparr>)))) \<and>
   tx (fst (snd (ServeConn srv (reg0 q_add) (conn0\<lparr>rx := [0x5a, 0x2b]\<rparr>)))) = [] \<and>
   snd (snd (ServeConn srv (reg0 q_add) (conn0\<lparr>rx := preamble_bad_magic\<rparr>))) = None \<and>
   closed (fst (snd (ServeConn srv (reg0 q_add) (conn0\<lparr>rx := preamble_bad_magic\<rparr>)))) \<and>
   tx (fst (snd (ServeConn srv (reg0 q_add) (conn0\<lparr>rx := preamble_bad_magic\<rparr>)))) = [] \<and>
   snd (snd (ServeConn srv (reg0 q_add) (conn0\<lparr>rx := preamble_bad_tag\<rparr>))) = None \<and>
   closed (fst (snd (ServeConn srv (reg0 q_add) (conn0\<lparr>rx := preamble_bad_tag\<rparr>)))) \<and>
   tx (fst (snd (ServeConn srv (reg0 q_add) (conn0\<lparr>rx := preamble_bad_tag\<rparr>)))) = [] \<and>
   map_option wlog (snd (snd (ServeConn srv (reg0 q_add) (conn0\<lparr>rx := preamble_ok\<rparr>)))) =
     Some [(hdr 1 ''Arith.Add'', IntV 3)]"
  using ServeConn_preamble [where s = srv and reg = "reg0 q_add"
                              and c = "conn0\<lparr>rx := [0x5a, 0x2b]\<rparr>"
                              and ncf = "sample_NewGobCodec q_add"]
        ServeConn_preamble [where s = srv and reg = "reg0 q_add"
                              and c = "conn0\<lparr>rx := preamble_bad_magic\<rparr>"
                              and ncf = "sample_NewGobCodec q_add"]
        ServeConn_preamble [where s = srv and reg = "reg0 q_add"
                              and c = "conn0\<lparr>rx := preamble_bad_tag\<rparr>"
                              and ncf = "sample_NewGobCodec q_add"]
        ServeConn_preamble [where s = srv and reg = "reg0 q_add"
                              and c = "conn0\<lparr>rx := preamble_ok\<rparr>"
                              and ncf = "sample_NewGobCodec q_add"]
  by (simp add: conn0_def preamble_ok_def preamble_bad_magic_def preamble_bad_tag_def
                Magic_def reg0_def NewCodecFuncMap_def serveCodec_Add q_add_def GobType_def)


section \<open>Requests that cannot be served\<close>

lemma findService_nil_has_error:
  "findService s nm = (a, b, None) \<Longrightarrow> a \<noteq> None \<and> b \<noteq> None"
  by (auto simp: findService_def Let_def split: if_splits option.splits dest: sym)

lemma readRequest_nil_has_error:
  "fst (fst (readRequest s c)) = None \<Longrightarrow> snd (fst (readRequest s c)) \<noteq> None"
  by (auto simp: readRequest_def readRequestHeader_def Let_def
           split: prod.splits sum.splits option.splits dest: findService_nil_has_error)

text \<open>
  \<open>readRequest\<close> never returns a request together with an error, so the branch of
  \<open>serveCodec\<close> that answers with the error text is never taken; and a header whose name
  does not resolve ends the loop.
\<close>

lemma readRequest_resolved:
  assumes "fst (fst (readRequest s c)) = Some req"
  shows "snd (fst (readRequest s c)) = None"
  using assms
  by (auto simp: readRequest_def readRequestHeader_def Let_def
           split: prod.splits sum.splits option.splits)

lemma serveCodec_unresolved:
  assumes "ReadHeader c = (Inr h, c1)" and "findService s (Name h) = (a, b, Some e)"
  shows "serveCodec s c = (s, snd (Close c1))"
  using assms
  by (simp add: serveCodec_def serve_loop.simps [of s c] readRequest_def readRequestHeader_def
           split: option.splits)

text \<open>
  C1, on the code.  The server holds \<open>Arith\<close> with \<open>Add\<close> and \<open>Div\<close>.  A request for
  \<open>Arith.Missing\<close> followed by a valid request for \<open>Arith.Add\<close>: the loop stops at the
  first header, no response is written, the codec is closed and the second request is
  never read.  A request for \<open>Arith.Add\<close> whose body fails to decode: the method is called
  on the zero argument and its reply is sent with an empty error.
\<close>

theorem serveCodec_unknown_method_drops:
  "serveCodec srv (codec0 [Hdr (hdr 1 ''Arith.Missing''), Body args12,
                           Hdr (hdr 2 ''Arith.Add''), Body args12]) =
     (srv, \<lparr>conn = conn0\<lparr>closed := True\<rparr>,
            rdq = [Body args12, Hdr (hdr 2 ''Arith.Add''), Body args12],
            wlog = [], wfail = None\<rparr>) \<and>
   wlog (snd (serveCodec srv (codec0 [Hdr (hdr 1 ''Arith.Add''), Fault (Err ''bad body'')]))) =
     [(hdr 1 ''Arith.Add'', IntV 0)]"
proof -
  have a: "serveCodec srv (codec0 [Hdr (hdr 1 ''Arith.Missing''), Body args12,
                           Hdr (hdr 2 ''Arith.Add''), Body args12]) =
     (srv, \<lparr>conn = conn0\<lparr>closed := True\<rparr>,
            rdq = [Body args12, Hdr (hdr 2 ''Arith.Add''), Body args12],
            wlog = [], wfail = None\<rparr>)"
    by (simp add: serveCodec_def serve_loop.simps readRequest_def readRequestHeader_def
                  ReadHeader_def codec0_def hdr_def find_Missing Close_def conn_Close_def conn0_def)
  have b: "wlog (snd (serveCodec srv (codec0 [Hdr (hdr 1 ''Arith.Add''), Fault (Err ''bad body'')]))) =
     [(hdr 1 ''Arith.Add'', IntV 0)]"
    by (simp add: serveCodec_def serve_loop.simps readRequest_def readRequestHeader_def
                ReadHeader_def ReadBody_def codec0_def hdr_def find_Add handleRequest_def call_def
                writeResponse_def Write_def Close_def newArgv_def newReplyv_def Add_def Let_def)
  from a b show ?thesis by simp
qed


section \<open>Responses of a dispatched request\<close>

text \<open>
  When the method returns no error, \<open>handleRequest\<close> writes one response: the header of
  the request and the reply.  When it returns an error, \<open>handleRequest\<close> writes the
  response with the error text and the placeholder, and then goes on to write a second
  one with the same header and the reply.
\<close>

lemma handleRequest_ok:
  assumes "method_Func (req_mType req) (req_argv req) (req_replyv req) = (rv, None)"
  shows "wlog (snd (handleRequest s c req)) = wlog c @ [(req_h req, rv)]"
  using assms by (simp add: handleRequest_def call_def writeResponse_def Write_def)

lemma handleRequest_err:
  assumes "method_Func (req_mType req) (req_argv req) (req_replyv req) = (rv, Some e)"
  shows "wlog (snd (handleRequest s c req)) =
           wlog c @ [((req_h req)\<lparr>Error := Error_text e\<rparr>, Struct0),
                     ((req_h req)\<lparr>Error := Error_text e\<rparr>, rv)]"
  using assms by (simp add: handleRequest_def call_def writeResponse_def Write_def Let_def)

lemma readRequest_Div0:
  "readRequest srv (codec0 [Hdr (hdr 1 ''Arith.Div''), Body (PairV (IntV 1) (IntV 0))]) =
     ((Some req_div0, None), codec0 [])"
  by (simp add: readRequest_def readRequestHeader_def ReadHeader_def ReadBody_def codec0_def
                hdr_def find_Div Let_def req_div0_def newArgv_def newReplyv_def Div_def)

text \<open>
  C2, on the code.  \<open>Arith.Div\<close> with the arguments 1 and 0 returns the error
  \<open>divide by zero\<close>; two responses are written for the one request, both under
  sequence number 1 and both carrying the error text, the first with the placeholder as
  body and the second with the reply.
\<close>

theorem handleRequest_error_two_responses:
  "wlog (snd (handleRequest srv (codec0 []) req_div0)) =
     [((hdr 1 ''Arith.Div'')\<lparr>Error := ''divide by zero''\<rparr>, Struct0),
      ((hdr 1 ''Arith.Div'')\<lparr>Error := ''divide by zero''\<rparr>, IntV 0)] \<and>
   wlog (snd (serveCodec srv (codec0 [Hdr (hdr 1 ''Arith.Div''), Body (PairV (IntV 1) (IntV 0))]))) =
     [((hdr 1 ''Arith.Div'')\<lparr>Error := ''divide by zero''\<rparr>, Struct0),
      ((hdr 1 ''Arith.Div'')\<lparr>Error := ''divide by zero''\<rparr>, IntV 0)]"
proof -
  have m: "method_Func (req_mType req_div0) (req_argv req_div0) (req_replyv req_div0) =
             (IntV 0, Some (Err ''divide by zero''))"
    by (simp add: req_div0_def Div_def)
  have h: "wlog (snd (handleRequest srv (codec0 []) req_div0)) =
     [((hdr 1 ''Arith.Div'')\<lparr>Error := ''divide by zero''\<rparr>, Struct0),
      ((hdr 1 ''Arith.Div'')\<lparr>Error := ''divide by zero''\<rparr>, IntV 0)]"
    using handleRequest_err [OF m, of srv "codec0 []"]
    by (simp add: codec0_def req_div0_def)
  have r: "rdq (snd (handleRequest srv (codec0 []) req_div0)) = []"
    by (simp add: codec0_def)
  have stop: "serve_loop s c = (s, c)" if "rdq c = []" for s c
    using that
    by (simp add: serve_loop.simps [of s c] readRequest_def readRequestHeader_def ReadHeader_def)
  obtain s' c2 where hr: "handleRequest srv (codec0 []) req_div0 = (s', c2)"
    by (cases "handleRequest srv (codec0 []) req_div0")
  have "rdq c2 = []"
    using r by (simp add: hr)
  then have "serve_loop s' c2 = (s', c2)"
    by (rule stop)
  then have "serve_loop srv (codec0 [Hdr (hdr 1 ''Arith.Div''), Body (PairV (IntV 1) (IntV 0))]) =
          handleRequest srv (codec0 []) req_div0"
    by (simp add: serve_loop.simps [of srv "codec0 [Hdr (hdr 1 ''Arith.Div''), Body (PairV (IntV 1) (IntV 0))]"]
                  readRequest_Div0 hr)
  then have "wlog (snd (serveCodec srv (codec0 [Hdr (hdr 1 ''Arith.Div''), Body (PairV (IntV 1) (IntV 0))]))) =
          wlog (snd (handleRequest srv (codec0 []) req_div0))"
    by (simp add: serveCodec_def Close_def split: prod.splits)
  with h show ?thesis by simp
qed


section \<open>Writing with the gob codec\<close>

text \<open>
  C10.  When header and body are both encoded without error and the flush of the buffered
  writer then fails, \<open>GobCodec.Write\<close> returns nil and does not close the connection:
  the result of \<open>Flush\<close> is not looked at, and \<open>Close\<close> is called only for an error of
  encoding.
\<close>

theorem gob_Write_flush_error_dropped:
  assumes "fst (Encode gob c (GHeader h)) = None"
    and "fst (Encode gob (snd (Encode gob c (GHeader h))) (GVal body)) = None"
    and "fst (Flush (snd (Encode gob (snd (Encode gob c (GHeader h))) (GVal body)))) = Some e"
  shows "fst (gob_Write gob c h body) = None \<and>
         closed (gconn (snd (gob_Write gob c h body))) = closed (gconn c) \<and>
         snd (gob_Write gob c h body) =
           snd (Flush (snd (Encode gob (snd (Encode gob c (GHeader h))) (GVal body))))"
proof -
  obtain c1 where e1: "Encode gob c (GHeader h) = (None, c1)"
    using assms(1) by (cases "Encode gob c (GHeader h)") simp
  obtain c2 where e2: "Encode gob c1 (GVal body) = (None, c2)"
    using assms(2) by (cases "Encode gob c1 (GVal body)") (simp add: e1)
  have w: "gob_Write gob c h body = (None, snd (Flush c2))"
    by (simp add: gob_Write_def e1 e2 Let_def)
  have k1: "gconn c1 = gconn c"
    using e1 by (auto simp: Encode_def split: sum.splits option.splits)
  have k2: "gconn c2 = gconn c1"
    using e2 by (auto simp: Encode_def split: sum.splits option.splits)
  have "closed (gconn (snd (Flush c2))) = closed (gconn c2)"
    by (auto simp: Flush_def conn_Write_def split: option.splits prod.splits if_splits)
  then show ?thesis
    by (simp add: w k1 k2 e1 e2)
qed

theorem gob_Write_flush_error_dropped_witness:
  "fst (Encode sample_gob gob_broken (GHeader (hdr 1 ''Arith.Add''))) = None \<and>
   fst (Flush \<lparr>gconn = conn_broken, gbuf = [1, 2], gerr = None\<rparr>) = Some (Err ''broken pipe'') \<and>
   gob_Write sample_gob gob_broken (hdr 1 ''Arith.Add'') (IntV 3) =
     (None, \<lparr>gconn = conn_broken, gbuf = [1, 2], gerr = Some (Err ''broken pipe'')\<rparr>) \<and>
   \<not> closed (gconn (snd (gob_Write sample_gob gob_broken (hdr 1 ''Arith.Add'') (IntV 3))))"
  using gob_Write_flush_error_dropped [where gob = sample_gob and c = gob_broken
          and h = "hdr 1 ''Arith.Add''" and body = "IntV 3" and e = "Err ''broken pipe''"]
  by (simp add: sample_gob_def gob_broken_def conn_broken_def conn0_def Encode_def Flush_def
                conn_Write_def prod_eq_iff)


end
